theory Spec2Isabelle
  imports Complex_Main "HOL-Library.Sublist"
begin

section \<open>Python strings and truthiness\<close>

text \<open>
  Strings are byte strings (\<open>char list\<close>); the model covers ASCII text. Python's
  \<open>str.strip()\<close> removes leading and trailing whitespace; in the ASCII range
  \<open>str.isspace\<close> holds for the codes 9..13 and 28..32.
\<close>

definition is_space :: "char \<Rightarrow> bool" where
  "is_space c = (let n = (of_char c :: nat) in (9 \<le> n \<and> n \<le> 13) \<or> (28 \<le> n \<and> n \<le> 32))"

definition strip :: "string \<Rightarrow> string" where
  "strip s = rev (dropWhile is_space (rev (dropWhile is_space s)))"

definition is_digit :: "char \<Rightarrow> bool" where
  "is_digit c = (let n = (of_char c :: nat) in 48 \<le> n \<and> n \<le> 57)"

definition lower_char :: "char \<Rightarrow> char" where
  "lower_char c = (let n = (of_char c :: nat) in if 65 \<le> n \<and> n \<le> 90 then char_of (n + 32) else c)"

definition lower :: "string \<Rightarrow> string" where
  "lower s = map lower_char s"

text \<open>\<open>x or y\<close> on strings: the first operand when it is non-empty, else the second.\<close>

definition str_or :: "string \<Rightarrow> string \<Rightarrow> string" where
  "str_or a b = (if a \<noteq> [] then a else b)"

text \<open>Truthiness of an \<open>Optional[str]\<close>: neither \<open>None\<close> nor the empty string.\<close>

definition truthy_str :: "string option \<Rightarrow> bool" where
  "truthy_str v = (case v of None \<Rightarrow> False | Some s \<Rightarrow> s \<noteq> [])"

text \<open>\<open>a and b\<close> on optional strings: \<open>a\<close> itself when it is falsy, else \<open>b\<close>.\<close>

definition opt_and :: "string option \<Rightarrow> string option \<Rightarrow> string option" where
  "opt_and a b = (if truthy_str a then b else a)"

text \<open>\<open>v or ""\<close> for an optional string.\<close>

definition opt_or_empty :: "string option \<Rightarrow> string" where
  "opt_or_empty v = (case v of None \<Rightarrow> [] | Some s \<Rightarrow> s)"

section \<open>The structured result of an enrichment call (common.py, CompanyInfo)\<close>

record company_info =
  company_name :: "string option"
  post_code :: "string option"
  website :: "string option"
  email :: "string option"
  numbers :: "string list option"
  contact_name :: "string option"
  contact_title :: "string option"
  contact_linkedin :: "string option"
  contact_email :: "string option"
  govuk_url :: "string option"
  source_url :: "string option"
  confidence :: "real option"
  info_notes :: "string option"

definition empty_info :: company_info where
  "empty_info = \<lparr>company_name = None, post_code = None, website = None, email = None,
     numbers = None, contact_name = None, contact_title = None, contact_linkedin = None,
     contact_email = None, govuk_url = None, source_url = None, confidence = None,
     info_notes = None\<rparr>"

section \<open>Phase 1 success predicate (phase1_discovery.py, attempt_has_core)\<close>

text \<open>
  A pydantic model instance is always truthy, so \<open>not info\<close> holds exactly for
  \<open>None\<close>.
\<close>

definition attempt_has_core :: "company_info option \<Rightarrow> bool" where
  "attempt_has_core info =
     (case info of
        None \<Rightarrow> False
      | Some i \<Rightarrow>
          (let has_site_inbox = truthy_str (opt_and (website i) (email i));
               has_phone = (case numbers i of None \<Rightarrow> False
                            | Some ns \<Rightarrow> (if ns = [] then False else 0 < length ns));
               has_identity = truthy_str (opt_and (company_name i) (govuk_url i))
           in has_site_inbox \<or> has_phone \<or> has_identity))"

text \<open>A field is present when it holds a non-empty value.\<close>

definition present :: "string option \<Rightarrow> bool" where
  "present v = (v \<noteq> None \<and> v \<noteq> Some [])"

section \<open>Phone clean-up (common.py, clean_phone and dedupe_keep_order)\<close>

text \<open>
  \<open>clean_phone\<close> deletes every character matched by \<open>[^\d+]\<close> from the stripped
  string, keeping digits and plus signs.
\<close>

definition clean_phone :: "string \<Rightarrow> string" where
  "clean_phone p = filter (\<lambda>c. is_digit c \<or> c = CHR ''+'') (strip p)"

text \<open>
  The loop of \<open>dedupe_keep_order\<close>, with the \<open>seen\<close> set and the \<open>out\<close> list as
  accumulators.
\<close>

fun dedupe_loop :: "string list \<Rightarrow> string set \<Rightarrow> string list \<Rightarrow> string list" where
  "dedupe_loop [] seen out = out"
| "dedupe_loop (x # xs) seen out =
     (if x = [] then dedupe_loop xs seen out
      else if x \<notin> seen then dedupe_loop xs (insert x seen) (out @ [x])
      else dedupe_loop xs seen out)"

definition dedupe_keep_order :: "string list \<Rightarrow> string list" where
  "dedupe_keep_order items = dedupe_loop items {} []"

text \<open>
  Lines 251-254 of Phase 1's main: the phone list that is merged for a result
  (\<open>nums\<close> stays empty when \<open>info.numbers\<close> is \<open>None\<close> or empty).
\<close>

definition phase1_nums :: "string list option \<Rightarrow> string list" where
  "phase1_nums numbers_field =
     (case numbers_field of
        None \<Rightarrow> []
      | Some ns \<Rightarrow>
          (if ns = [] then []
           else dedupe_keep_order (filter (\<lambda>n. 7 \<le> length n) (map clean_phone ns))))"

section \<open>Bounded retry with jittered backoff (the retry loops of both phases)\<close>

text \<open>
  Lines 208-226 of phase1_discovery.py and 258-279 of phase2_contacts.py are the same
  loop over different result types. The opaque agent call is an input of the model: for
  each attempt number it either raises or returns a result. \<open>random.random()\<close> is an
  input as well, a number in \<open>[0, 1)\<close> for each attempt. Durations are real numbers.
  The trace records, in order, every agent call and every \<open>asyncio.sleep\<close>.
\<close>

record retry_cfg =
  row_retries :: int
  backoff_base :: real
  start_sleep :: real
  max_sleep :: real

datatype 'r outcome = Raised | Returned 'r

datatype event = Call nat | Sleep real

record 'r retry_state =
  rs_info :: 'r
  rs_attempt :: nat
  rs_sleep_s :: real
  rs_trace :: "event list"

text \<open>\<open>random.uniform(a, b)\<close> is \<open>a + (b - a) * random()\<close>.\<close>

definition uniform :: "real \<Rightarrow> real \<Rightarrow> real \<Rightarrow> real" where
  "uniform a b u = a + (b - a) * u"

text \<open>
  \<open>retry_loop cfg ok dflt agent rnd n st\<close> runs the remaining \<open>n\<close> iterations of
  \<open>for attempt in range(1, ROW_RETRIES + 1)\<close>; \<open>ok\<close> is the success test that guards
  \<open>break\<close> and \<open>dflt\<close> the value assigned when the call raises.
\<close>

fun retry_loop ::
  "retry_cfg \<Rightarrow> ('r \<Rightarrow> bool) \<Rightarrow> 'r \<Rightarrow> (nat \<Rightarrow> 'r outcome) \<Rightarrow> (nat \<Rightarrow> real) \<Rightarrow> nat \<Rightarrow>
   'r retry_state \<Rightarrow> 'r retry_state" where
  "retry_loop cfg ok dflt agent rnd 0 st = st"
| "retry_loop cfg ok dflt agent rnd (Suc n) st =
     (let attempt = rs_attempt st + 1;
          info = (case agent attempt of Raised \<Rightarrow> dflt | Returned r \<Rightarrow> r);
          st1 = st\<lparr>rs_info := info, rs_attempt := attempt,
                   rs_trace := rs_trace st @ [Call attempt]\<rparr>
      in if ok info then st1
         else
           (let jitter = uniform 0 (2 / 5 * rs_sleep_s st) (rnd attempt);
                to_sleep = min (max_sleep cfg) (rs_sleep_s st + jitter)
            in retry_loop cfg ok dflt agent rnd n
                 (st1\<lparr>rs_trace := rs_trace st1 @ [Sleep to_sleep],
                      rs_sleep_s := min (max_sleep cfg) (rs_sleep_s st * backoff_base cfg)\<rparr>)))"

definition retry_init :: "retry_cfg \<Rightarrow> 'r \<Rightarrow> 'r retry_state" where
  "retry_init cfg info0 =
     \<lparr>rs_info = info0, rs_attempt = 0, rs_sleep_s = start_sleep cfg, rs_trace = []\<rparr>"

text \<open>Phase 1: \<open>info = None\<close> before the loop and after a raising call.\<close>

definition phase1_retry ::
  "retry_cfg \<Rightarrow> (nat \<Rightarrow> company_info option outcome) \<Rightarrow> (nat \<Rightarrow> real) \<Rightarrow>
   company_info option retry_state" where
  "phase1_retry cfg agent rnd =
     retry_loop cfg attempt_has_core None agent rnd (nat (row_retries cfg)) (retry_init cfg None)"

text \<open>The result the loop sees at an attempt.\<close>

definition result_at :: "'r \<Rightarrow> (nat \<Rightarrow> 'r outcome) \<Rightarrow> nat \<Rightarrow> 'r" where
  "result_at dflt agent a = (case agent a of Raised \<Rightarrow> dflt | Returned r \<Rightarrow> r)"

fun calls_of :: "event list \<Rightarrow> nat list" where
  "calls_of [] = []"
| "calls_of (Call a # es) = a # calls_of es"
| "calls_of (Sleep d # es) = calls_of es"





text \<open>The configuration defaults of both phase modules.\<close>

definition default_cfg :: retry_cfg where
  "default_cfg = \<lparr>row_retries = 5, backoff_base = 9 / 5, start_sleep = 1, max_sleep = 12\<rparr>"

text \<open>
  Scripted agents for concrete runs: one that raises at every attempt, and one that plays
  a list of outcomes (attempt 1 first) and raises once the list is used up.
\<close>

definition always_raises :: "nat \<Rightarrow> 'r outcome" where
  "always_raises a = Raised"

definition scripted :: "'r outcome list \<Rightarrow> nat \<Rightarrow> 'r outcome" where
  "scripted os a = (if 1 \<le> a \<and> a \<le> length os then os ! (a - 1) else Raised)"

text \<open>The three disjuncts of the success rule, as the specification words them.\<close>

definition spec_has_core :: "company_info \<Rightarrow> bool" where
  "spec_has_core i =
     ((present (website i) \<and> present (email i))
      \<or> (numbers i \<noteq> None \<and> numbers i \<noteq> Some [])
      \<or> (present (company_name i) \<and> present (govuk_url i)))"

definition spec_success :: "company_info option \<Rightarrow> bool" where
  "spec_success info = (case info of None \<Rightarrow> False | Some i \<Rightarrow> spec_has_core i)"

definition site_and_inbox :: company_info where
  "site_and_inbox = empty_info\<lparr>website := Some ''https://x.com'', email := Some ''info@x.com''\<rparr>"

definition notes_only :: company_info where
  "notes_only = empty_info\<lparr>info_notes := Some ''nothing found''\<rparr>"

text \<open>Jitter inputs for concrete runs.\<close>

definition jitter_half :: "nat \<Rightarrow> real" where
  "jitter_half a = 1 / 2"



text \<open>
  De-duplication that keeps the first occurrence of every element, in the order of these
  first occurrences, as the specification words it.
\<close>

fun first_seen :: "'a list \<Rightarrow> 'a list" where
  "first_seen [] = []"
| "first_seen (x # xs) = x # filter (\<lambda>y. y \<noteq> x) (first_seen xs)"

section \<open>Phase 2: parsing the contact payload (phase2_contacts.py, run_for_company)\<close>

text \<open>
  The agent's final answer is a JSON value. A JSON object is an association list with
  unique keys, as \<open>json.loads\<close> builds it. \<open>JNull\<close> stands for \<open>None\<close>.
\<close>

datatype json =
    JNull
  | JBool bool
  | JNum real
  | JStr string
  | JList "json list"
  | JDict "(string \<times> json) list"

datatype py_error = AttributeError | IndexError | ValueError | OSError

fun truthy :: "json \<Rightarrow> bool" where
  "truthy JNull = False"
| "truthy (JBool b) = b"
| "truthy (JNum x) = (x \<noteq> 0)"
| "truthy (JStr s) = (s \<noteq> [])"
| "truthy (JList xs) = (xs \<noteq> [])"
| "truthy (JDict kvs) = (kvs \<noteq> [])"

text \<open>\<open>item.get(key) or ""\<close>.\<close>

definition get_or_empty :: "(string \<times> json) list \<Rightarrow> string \<Rightarrow> json" where
  "get_or_empty d k =
     (case map_of d k of
        None \<Rightarrow> JStr []
      | Some v \<Rightarrow> if truthy v then v else JStr [])"

text \<open>
  \<open>(item.get(key) or "").strip()\<close>: only a string has \<open>strip\<close>; any other truthy
  value raises \<open>AttributeError\<close>.
\<close>

definition str_field :: "(string \<times> json) list \<Rightarrow> string \<Rightarrow> py_error + string" where
  "str_field d k =
     (case get_or_empty d k of
        JStr s \<Rightarrow> Inr (strip s)
      | _ \<Rightarrow> Inl AttributeError)"

record contact =
  c_name :: string
  c_title :: string
  c_linkedin :: string
  c_email :: string
  c_source_url :: string
  c_confidence :: json
  c_notes :: string

text \<open>
  One iteration of the loop over the payload's items: \<open>Inr None\<close> is \<open>continue\<close>,
  \<open>Inr (Some c)\<close> the appended contact, \<open>Inl e\<close> an exception leaving the function.
\<close>

definition parse_item :: "json \<Rightarrow> py_error + contact option" where
  "parse_item item =
     (case item of
        JDict d \<Rightarrow>
          (case str_field d ''contact_name'' of
             Inl e \<Rightarrow> Inl e
           | Inr name \<Rightarrow>
          (case str_field d ''contact_title'' of
             Inl e \<Rightarrow> Inl e
           | Inr title \<Rightarrow>
          if name = [] \<or> title = [] then Inr None
          else
          (case str_field d ''contact_linkedin'' of
             Inl e \<Rightarrow> Inl e
           | Inr linkedin \<Rightarrow>
          (case str_field d ''contact_email'' of
             Inl e \<Rightarrow> Inl e
           | Inr mail \<Rightarrow>
          (case str_field d ''source_url'' of
             Inl e \<Rightarrow> Inl e
           | Inr src \<Rightarrow>
          (case str_field d ''notes'' of
             Inl e \<Rightarrow> Inl e
           | Inr nts \<Rightarrow>
             Inr (Some \<lparr>c_name = name, c_title = title, c_linkedin = linkedin,
                        c_email = lower mail, c_source_url = src,
                        c_confidence = (case map_of d ''confidence'' of None \<Rightarrow> JNull | Some v \<Rightarrow> v),
                        c_notes = nts\<rparr>)))))))
      | _ \<Rightarrow> Inr None)"

fun parse_items :: "json list \<Rightarrow> contact list \<Rightarrow> py_error + contact list" where
  "parse_items [] contacts = Inr contacts"
| "parse_items (item # items) contacts =
     (case parse_item item of
        Inl e \<Rightarrow> Inl e
      | Inr None \<Rightarrow> parse_items items contacts
      | Inr (Some c) \<Rightarrow> parse_items items (contacts @ [c]))"

text \<open>\<open>TARGET_CONTACTS = max(1, min(3, TARGET_CONTACTS))\<close>.\<close>

definition target_contacts :: "int \<Rightarrow> nat" where
  "target_contacts t = nat (max 1 (min 3 t))"

text \<open>
  Lines 157-179 of \<open>run_for_company\<close>, from the parsed payload on (\<open>JNull\<close> when there
  is none).
\<close>

definition parse_payload :: "int \<Rightarrow> json \<Rightarrow> py_error + contact list" where
  "parse_payload t payload =
     (case payload of
        JDict p \<Rightarrow>
          (case (case map_of p ''contacts'' of None \<Rightarrow> JList [] | Some c \<Rightarrow> c) of
             JList items \<Rightarrow>
               (case parse_items items [] of
                  Inl e \<Rightarrow> Inl e
                | Inr contacts \<Rightarrow> Inr (take (target_contacts t) contacts))
           | _ \<Rightarrow> Inr (take (target_contacts t) []))
      | _ \<Rightarrow> Inr (take (target_contacts t) []))"

text \<open>
  The \<open>try\<close>/\<open>except\<close> around the call in Phase 2's main: the contact list of an attempt
  is empty when the agent or the parsing raised.
\<close>

definition attempt_contacts :: "int \<Rightarrow> json outcome \<Rightarrow> contact list" where
  "attempt_contacts t out =
     (case out of
        Raised \<Rightarrow> []
      | Returned payload \<Rightarrow>
          (case parse_payload t payload of Inl e \<Rightarrow> [] | Inr contacts \<Rightarrow> contacts))"

text \<open>
  Phase 2's retry loop: \<open>ROW_RETRIES = max(1, ROW_RETRIES)\<close>, success is a non-empty
  contact list.
\<close>

definition phase2_retry ::
  "retry_cfg \<Rightarrow> int \<Rightarrow> (nat \<Rightarrow> json outcome) \<Rightarrow> (nat \<Rightarrow> real) \<Rightarrow> contact list retry_state" where
  "phase2_retry cfg t agent rnd =
     retry_loop cfg (\<lambda>contacts. contacts \<noteq> []) []
       (\<lambda>a. Returned (attempt_contacts t (agent a))) rnd
       (nat (max 1 (row_retries cfg))) (retry_init cfg [])"





text \<open>Sample payloads.\<close>

definition nameless_payload :: json where
  "nameless_payload = JDict [(''contacts'',
     JList [JDict [(''contact_name'', JStr ''  ''), (''contact_title'', JStr ''Director'')],
            JDict [(''contact_name'', JStr ''Ann Lee''), (''contact_title'', JNull)]])]"

definition director_payload :: json where
  "director_payload = JDict [(''contacts'',
     JList [JDict [(''contact_title'', JStr ''Director'')],
            JDict [(''contact_name'', JStr '' Ann Lee ''), (''contact_title'', JStr ''Director''),
                   (''contact_email'', JStr ''Ann@X.com'')]])]"

section \<open>Tables, dialects and the CSV writer (common.py, write_rows)\<close>

text \<open>
  A dialect as the \<open>csv\<close> module holds it. All dialects of this program use
  \<open>QUOTE_MINIMAL\<close> and no escape character.
\<close>

record dialect =
  delimiter :: char
  quotechar :: char
  doublequote :: bool
  skipinitialspace :: bool
  lineterminator :: string

definition LF :: char where
  "LF = CHR 0x0A"

definition CR :: char where
  "CR = CHR 0x0D"

definition DQUOTE :: char where
  "DQUOTE = CHR 0x22"

text \<open>
  \<open>csv.writer.writerow\<close> with \<open>QUOTE_MINIMAL\<close> and \<open>doublequote=True\<close> (CPython 3.11):
  a field is quoted when it holds the delimiter, the quote character, a line feed, a
  carriage return or a character of the line terminator; quote characters inside are
  doubled. A record that would come out empty although it has a field (a single empty
  cell) is written as a pair of quotes.
\<close>

definition needs_quote :: "char \<Rightarrow> char \<Rightarrow> string \<Rightarrow> string \<Rightarrow> bool" where
  "needs_quote d q lt field =
     (\<exists>c \<in> set field. c = d \<or> c = q \<or> c = LF \<or> c = CR \<or> c \<in> set lt)"

definition double_quotes :: "char \<Rightarrow> string \<Rightarrow> string" where
  "double_quotes q field = concat (map (\<lambda>c. if c = q then [q, q] else [c]) field)"

definition write_field :: "char \<Rightarrow> char \<Rightarrow> string \<Rightarrow> string \<Rightarrow> string" where
  "write_field d q lt field =
     (if needs_quote d q lt field then [q] @ double_quotes q field @ [q] else field)"

fun join :: "'a list \<Rightarrow> 'a list list \<Rightarrow> 'a list" where
  "join sep [] = []"
| "join sep [x] = x"
| "join sep (x # y # ys) = x @ sep @ join sep (y # ys)"

definition writerow :: "char \<Rightarrow> char \<Rightarrow> string \<Rightarrow> string list \<Rightarrow> string" where
  "writerow d q lt row =
     (let record = join [d] (map (write_field d q lt) row)
      in (if row \<noteq> [] \<and> record = [] then [q, q] else record) @ lt)"

text \<open>
  \<open>write_rows\<close>: the text written to the file, which replaces what the file held. The
  writer is built from \<open>dialect.delimiter\<close> and four literals.
\<close>

definition write_rows :: "dialect \<Rightarrow> string list \<Rightarrow> string list list \<Rightarrow> string" where
  "write_rows dialect header rows =
     concat (map (writerow (delimiter dialect) DQUOTE [LF]) (header # rows))"

text \<open>
  What the claim of a dialect-preserving writer would write: the same rows in the
  dialect's own quote character and line terminator.
\<close>

definition write_rows_in_dialect :: "dialect \<Rightarrow> string list \<Rightarrow> string list list \<Rightarrow> string" where
  "write_rows_in_dialect dialect header rows =
     concat (map (writerow (delimiter dialect) (quotechar dialect) (lineterminator dialect))
       (header # rows))"

text \<open>
  The dialect \<open>csv.Sniffer().sniff\<close> returns for a semicolon-separated sample without
  quotes: its line terminator is always CR LF.
\<close>

definition sniffed_semicolon :: dialect where
  "sniffed_semicolon = \<lparr>delimiter = CHR '';'', quotechar = DQUOTE, doublequote = False,
     skipinitialspace = False, lineterminator = [CR, LF]\<rparr>"

text \<open>The same with single quotes detected as quote character.\<close>

definition sniffed_single_quote :: dialect where
  "sniffed_single_quote = \<lparr>delimiter = CHR '';'', quotechar = CHR 0x27, doublequote = False,
     skipinitialspace = False, lineterminator = [CR, LF]\<rparr>"

section \<open>Schema extension (common.py)\<close>

definition OUT_COL_ADDRESS :: string where "OUT_COL_ADDRESS = ''ADDRESS''"
definition OUT_COL_POSTCODE :: string where "OUT_COL_POSTCODE = ''POSTCODE''"
definition OUT_COL_COMPANY_NAME :: string where "OUT_COL_COMPANY_NAME = ''COMPANY NAME''"
definition OUT_COL_WEBSITE :: string where "OUT_COL_WEBSITE = ''WEBSITE''"
definition OUT_COL_EMAIL :: string where "OUT_COL_EMAIL = ''GENERAL EMAIL''"
definition OUT_COL_PHONE :: string where "OUT_COL_PHONE = ''PHONE NUMBER''"
definition OUT_COL_CONTACT_NAME :: string where "OUT_COL_CONTACT_NAME = ''DIRECT CONTACT''"
definition OUT_COL_CONTACT_TITLE :: string where "OUT_COL_CONTACT_TITLE = ''JOBTITLE''"
definition OUT_COL_CONTACT_LINKEDIN :: string where "OUT_COL_CONTACT_LINKEDIN = ''LINKEDIN''"
definition OUT_COL_CONTACT_EMAIL :: string where "OUT_COL_CONTACT_EMAIL = ''EMAIL''"
definition OUT_COL_GOVUK_URL :: string where "OUT_COL_GOVUK_URL = ''GOV.UK URL''"
definition OUT_COL_SOURCE_URL :: string where "OUT_COL_SOURCE_URL = ''source_url''"
definition OUT_COL_CONFIDENCE :: string where "OUT_COL_CONFIDENCE = ''confidence''"
definition OUT_COL_NOTES :: string where "OUT_COL_NOTES = ''notes''"

text \<open>\<open>list.index\<close>: the first position of an element, \<open>ValueError\<close> when it is absent.\<close>

definition first_index :: "'a list \<Rightarrow> 'a \<Rightarrow> nat" where
  "first_index xs x = length (takeWhile (\<lambda>y. y \<noteq> x) xs)"

definition py_index :: "'a list \<Rightarrow> 'a \<Rightarrow> py_error + nat" where
  "py_index xs x = (if x \<in> set xs then Inr (first_index xs x) else Inl ValueError)"

text \<open>\<open>ensure_col_exact\<close> returns the index and the header, which it may have extended.\<close>

definition ensure_col_exact :: "string list \<Rightarrow> string \<Rightarrow> nat \<times> string list" where
  "ensure_col_exact header name =
     (if name \<in> set header then (first_index header name, header)
      else (length (header @ [name]) - 1, header @ [name]))"

text \<open>Decimal digits of a number, as an f-string prints an \<open>int\<close>.\<close>

definition digit_char :: "nat \<Rightarrow> char" where
  "digit_char n = char_of (48 + n)"

function show_nat :: "nat \<Rightarrow> string" where
  "show_nat n = (if n < 10 then [digit_char n] else show_nat (n div 10) @ [digit_char (n mod 10)])"
  by pat_completeness auto
termination
  by (relation "measure id") auto

definition show_int :: "int \<Rightarrow> string" where
  "show_int i = (if i < 0 then CHR ''-'' # show_nat (nat (- i)) else show_nat (nat i))"

text \<open>The column of phone slot \<open>k\<close> for \<open>k > 1\<close>: \<open>f"{OUT_COL_PHONE} {k}"\<close>.\<close>

definition phone_col :: "nat \<Rightarrow> string" where
  "phone_col k = OUT_COL_PHONE @ '' '' @ show_nat k"

definition append_missing :: "string \<Rightarrow> string list \<Rightarrow> string list" where
  "append_missing name header = (if name \<in> set header then header else header @ [name])"

definition ensure_phone_cols :: "string list \<Rightarrow> nat \<Rightarrow> string list" where
  "ensure_phone_cols header max_phones =
     (let header1 = append_missing OUT_COL_PHONE header
      in if 1 < max_phones
         then fold (\<lambda>k h. append_missing (phone_col k) h) [2 ..< max_phones + 1] header1
         else header1)"

text \<open>
  \<open>fill_phone_cols\<close> changes the row and the header in place; the model returns both.
  The loop state is the row, the header and \<open>max_phones\<close>; \<open>k\<close> is the position in
  \<open>numbers\<close>. Reading or writing a list position that does not exist raises
  \<open>IndexError\<close>.
\<close>

fun fill_phone_loop ::
  "nat \<Rightarrow> nat \<Rightarrow> string list \<Rightarrow> string list \<times> string list \<times> nat \<Rightarrow>
   py_error + string list \<times> string list \<times> nat" where
  "fill_phone_loop base k [] st = Inr st"
| "fill_phone_loop base k (val # vals) (row, header, max_phones) =
     (if k = 0 then
        (if base < length row
         then fill_phone_loop base (k + 1) vals
                (row[base := str_or (row ! base) val], header, max_phones)
         else Inl IndexError)
      else
        (let col = phone_col (k + 1);
             header1 = append_missing col header;
             idx = first_index header1 col;
             row1 = (if length row \<le> idx then row @ replicate (idx + 1 - length row) [] else row)
         in fill_phone_loop base (k + 1) vals
              (row1[idx := val], header1, max max_phones (k + 1))))"

definition fill_phone_cols ::
  "string list \<Rightarrow> string list \<Rightarrow> string list \<Rightarrow> py_error + string list \<times> string list" where
  "fill_phone_cols row header nums =
     (case py_index header OUT_COL_PHONE of
        Inl e \<Rightarrow> Inl e
      | Inr number_base_idx \<Rightarrow>
          (case fill_phone_loop number_base_idx 0 nums (row, header, 1) of
             Inl e \<Rightarrow> Inl e
           | Inr (row1, header1, max_phones) \<Rightarrow> Inr (row1, ensure_phone_cols header1 max_phones)))"

section \<open>Phase 1: merging a result into the row (phase1_discovery.py, main, lines 229-255)\<close>

text \<open>\<open>s.strip(chars)\<close>: leading and trailing characters of the set removed.\<close>

definition strip_chars :: "string \<Rightarrow> string \<Rightarrow> string" where
  "strip_chars chars s =
     rev (dropWhile (\<lambda>c. c \<in> set chars) (rev (dropWhile (\<lambda>c. c \<in> set chars) s)))"

text \<open>The columns Phase 1 writes, as \<open>ensure_col_exact\<close> returned their indices.\<close>

record p1_cols =
  idx_address :: nat
  idx_pc :: nat
  idx_name :: nat
  idx_site :: nat
  idx_email :: nat
  idx_phone :: nat
  idx_govuk :: nat
  idx_src :: nat
  idx_conf :: nat
  idx_notes :: nat

text \<open>
  Lines 160-171: the output header and the indices. Each call sees the header the
  previous one left.
\<close>

definition phase1_header :: "string list \<Rightarrow> p1_cols \<times> string list" where
  "phase1_header header =
     (let (i_address, h1) = ensure_col_exact header OUT_COL_ADDRESS;
          (i_pc, h2) = ensure_col_exact h1 OUT_COL_POSTCODE;
          (i_name, h3) = ensure_col_exact h2 OUT_COL_COMPANY_NAME;
          (i_site, h4) = ensure_col_exact h3 OUT_COL_WEBSITE;
          (i_email, h5) = ensure_col_exact h4 OUT_COL_EMAIL;
          (i_phone, h6) = ensure_col_exact h5 OUT_COL_PHONE;
          (i_govuk, h7) = ensure_col_exact h6 OUT_COL_GOVUK_URL;
          (i_src, h8) = ensure_col_exact h7 OUT_COL_SOURCE_URL;
          (i_conf, h9) = ensure_col_exact h8 OUT_COL_CONFIDENCE;
          (i_notes, h10) = ensure_col_exact h9 OUT_COL_NOTES
      in (\<lparr>idx_address = i_address, idx_pc = i_pc, idx_name = i_name, idx_site = i_site,
           idx_email = i_email, idx_phone = i_phone, idx_govuk = i_govuk, idx_src = i_src,
           idx_conf = i_conf, idx_notes = i_notes\<rparr>, h10))"

text \<open>
  \<open>if v: row[i] = row[i] or f(v)\<close> for an optional string field \<open>v\<close>.
\<close>

definition fill_if_present :: "nat \<Rightarrow> string option \<Rightarrow> (string \<Rightarrow> string) \<Rightarrow> string list \<Rightarrow> string list" where
  "fill_if_present i v f row =
     (if truthy_str v then row[i := str_or (row ! i) (f (opt_or_empty v))] else row)"

text \<open>
  The body of \<open>if info:\<close> up to the notes. \<open>fmt\<close> stands for the format
  \<open>f"{x:.2f}"\<close> of a float; \<open>attempt\<close> and \<open>retries\<close> are the loop counter after the
  retry loop and \<open>ROW_RETRIES\<close>.
\<close>

definition merge_info ::
  "(real \<Rightarrow> string) \<Rightarrow> p1_cols \<Rightarrow> string \<Rightarrow> string \<Rightarrow> nat \<Rightarrow> int \<Rightarrow> company_info \<Rightarrow>
   string list \<Rightarrow> string list" where
  "merge_info fmt cols address postcode attempt retries info row =
     (let row1 = row[idx_address cols := str_or (row ! idx_address cols) (str_or address [])];
          row2 = row1[idx_pc cols :=
                   str_or (row1 ! idx_pc cols)
                     (str_or (opt_or_empty (post_code info)) (str_or postcode []))];
          row3 = fill_if_present (idx_name cols) (company_name info) strip row2;
          row4 = fill_if_present (idx_site cols) (website info) strip row3;
          row5 = fill_if_present (idx_email cols) (email info) (\<lambda>s. lower (strip s)) row4;
          row6 = fill_if_present (idx_govuk cols) (govuk_url info) strip row5;
          row7 = fill_if_present (idx_src cols) (source_url info) strip row6;
          row8 = (case confidence info of
                    None \<Rightarrow> row7
                  | Some x \<Rightarrow> if row7 ! idx_conf cols = [] then row7[idx_conf cols := fmt x]
                              else row7);
          existing_notes = str_or (row8 ! idx_notes cols) [];
          note = strip (opt_or_empty (info_notes info));
          attempts_note = ''Phase1 attempts: '' @ show_nat attempt @ ''/'' @ show_int retries;
          combined = strip_chars ''; ''
                       (join ''; '' (filter (\<lambda>s. s \<noteq> []) [existing_notes, note, attempts_note]))
      in row8[idx_notes cols := combined])"

text \<open>
  Lines 229-255 for one row: the merged row and the phone list \<open>nums\<close>.
\<close>

definition apply_results ::
  "(real \<Rightarrow> string) \<Rightarrow> p1_cols \<Rightarrow> string \<Rightarrow> string \<Rightarrow> nat \<Rightarrow> int \<Rightarrow> company_info option \<Rightarrow>
   string list \<Rightarrow> string list \<times> string list" where
  "apply_results fmt cols address postcode attempt retries info row =
     (case info of
        None \<Rightarrow> (row, [])
      | Some i \<Rightarrow> (merge_info fmt cols address postcode attempt retries i row,
                   phase1_nums (numbers i)))"

text \<open>No two-decimal format is needed where the result carries no confidence.\<close>

definition no_fmt :: "real \<Rightarrow> string" where
  "no_fmt x = []"







section \<open>Files, checkpoints and snapshots\<close>

text \<open>
  The three files a phase writes: the final output, the partial snapshot and the
  checkpoint log. A CSV file holds the text \<open>write_rows\<close> produced; the log holds the
  records appended so far, one per line. The paths are taken to be distinct.
\<close>

record checkpoint =
  ck_row_index :: nat
  ck_input :: "(string \<times> json) list"
  ck_output :: "(string \<times> json) list option"
  ck_note :: "string option"

record files =
  output_csv :: "string option"
  partial_csv :: "string option"
  checkpoint_jsonl :: "checkpoint list"

text \<open>
  What the environment does to a write: it succeeds, or it raises and leaves the file
  with some content of its own choosing (\<open>None\<close>: no file).
\<close>

datatype io_result = Written | Failed "string option"

text \<open>\<open>x or None\<close> for a cell.\<close>

definition or_none :: "string \<Rightarrow> json" where
  "or_none s = (if s = [] then JNull else JStr s)"

text \<open>
  \<open>write_checkpoint\<close> of both phases: the record is appended; any exception is
  swallowed by \<open>except Exception: pass\<close>, and the log then keeps what it had.
\<close>

definition write_checkpoint :: "bool \<Rightarrow> checkpoint \<Rightarrow> files \<Rightarrow> files" where
  "write_checkpoint succeeds record fs =
     (if succeeds then fs\<lparr>checkpoint_jsonl := checkpoint_jsonl fs @ [record]\<rparr> else fs)"

text \<open>\<open>max((len(x) for x in phone_lists), default=0)\<close>.\<close>

definition max_len :: "'a list list \<Rightarrow> nat" where
  "max_len xss = fold (\<lambda>xs m. max m (length xs)) xss 0"

text \<open>
  The loop \<open>for r, nums in zip(rows, phone_lists): fill_phone_cols(r, header, nums)\<close>,
  of the snapshot and of the final write: the rows are filled in order, all against the
  one header.
\<close>

fun fill_all ::
  "(string list \<times> string list) list \<Rightarrow> string list \<Rightarrow> string list list \<Rightarrow>
   py_error + string list list \<times> string list" where
  "fill_all [] header done = Inr (done, header)"
| "fill_all ((r, nums) # rest) header done =
     (case fill_phone_cols r header nums of
        Inl e \<Rightarrow> Inl e
      | Inr (r1, header1) \<Rightarrow> fill_all rest header1 (done @ [r1]))"

text \<open>
  \<open>_write_partial_snapshot\<close> of Phase 1 up to the call of \<open>write_rows\<close>: the header
  and the rows it passes on. The live header and rows are copied, not changed.
\<close>

definition snapshot_table ::
  "string list \<Rightarrow> string list list \<Rightarrow> string list list \<Rightarrow>
   py_error + string list list \<times> string list" where
  "snapshot_table base_header processed_rows phone_lists =
     (let header = ensure_phone_cols base_header (max_len phone_lists);
          rows_copy = map (\<lambda>r. r @ replicate (length header - length r) []) processed_rows;
          filled = fill_all (zip rows_copy phone_lists) header []
      in (case filled of
            Inl e \<Rightarrow> Inl e
          | Inr (rows1, header1) \<Rightarrow>
              Inr (rows1 @ drop (length phone_lists) rows_copy, header1)))"

text \<open>Writing a CSV file: a write that raises leaves what the environment says.\<close>

definition write_file :: "io_result \<Rightarrow> string \<Rightarrow> py_error + string option" where
  "write_file io text = (case io of Written \<Rightarrow> Inr (Some text) | Failed left \<Rightarrow> Inl OSError)"

definition left_behind :: "io_result \<Rightarrow> string option \<Rightarrow> string option" where
  "left_behind io before = (case io of Written \<Rightarrow> before | Failed left \<Rightarrow> left)"

section \<open>Phase 1: the row loop and the final write (phase1_discovery.py, main)\<close>

record config =
  retry_settings :: retry_cfg
  partial_every :: int
  target_setting :: int

text \<open>
  The environment of a run: the agent's outcome and the random draw for each row and
  attempt, the float format, and the fate of each write.
\<close>

record p1_env =
  p1_agent :: "nat \<Rightarrow> nat \<Rightarrow> company_info option outcome"
  p1_rnd :: "nat \<Rightarrow> nat \<Rightarrow> real"
  fmt2 :: "real \<Rightarrow> string"
  checkpoint_ok :: "nat \<Rightarrow> bool"
  snapshot_io :: "nat \<Rightarrow> io_result"
  output_io :: io_result

record p1_state =
  processed_rows :: "string list list"
  phone_lists :: "string list list"
  files_of :: files

text \<open>
  The autosave block: every \<open>PARTIAL_EVERY\<close> rows the snapshot is written; an exception
  from building or writing it is caught and printed.
\<close>

definition autosave1 ::
  "config \<Rightarrow> p1_env \<Rightarrow> dialect \<Rightarrow> string list \<Rightarrow> nat \<Rightarrow> p1_state \<Rightarrow> p1_state" where
  "autosave1 cfg env dialect output_header i st =
     (if 0 < partial_every cfg \<and> int i mod partial_every cfg = 0
      then (case snapshot_table output_header (processed_rows st) (phone_lists st) of
              Inl e \<Rightarrow> st
            | Inr (rows, header) \<Rightarrow>
                (case write_file (snapshot_io env i) (write_rows dialect header rows) of
                   Inl e \<Rightarrow> st\<lparr>files_of := (files_of st)\<lparr>partial_csv :=
                              left_behind (snapshot_io env i) (partial_csv (files_of st))\<rparr>\<rparr>
                 | Inr content \<Rightarrow> st\<lparr>files_of := (files_of st)\<lparr>partial_csv := content\<rparr>\<rparr>))
      else st)"

text \<open>
  One iteration of \<open>for i, row in enumerate(data_rows, start=1)\<close>, in three parts:
  what the row becomes (with its phone list and its checkpoint record), the
  book-keeping, and the autosave. The seed company of the checkpoint's input is left
  out: it only feeds the prompt and the log.
\<close>

definition skip_checkpoint :: "nat \<Rightarrow> string \<Rightarrow> string \<Rightarrow> checkpoint" where
  "skip_checkpoint i address postcode =
     \<lparr>ck_row_index = i,
      ck_input = [(''address'', JStr address), (''postcode'', JStr postcode)],
      ck_output = None, ck_note = Some ''skipped blank row''\<rparr>"

definition row_checkpoint ::
  "p1_cols \<Rightarrow> nat \<Rightarrow> string \<Rightarrow> string \<Rightarrow> string list \<Rightarrow> string list \<Rightarrow> checkpoint" where
  "row_checkpoint cols i address postcode row nums =
     \<lparr>ck_row_index = i,
      ck_input = [(''address'', JStr address), (''postcode'', JStr postcode)],
      ck_output = Some
        [(''company_name'', or_none (row ! idx_name cols)),
         (''website'', or_none (row ! idx_site cols)),
         (''email'', or_none (row ! idx_email cols)),
         (''numbers'', if nums = [] then JNull else JList (map JStr nums)),
         (''govuk_url'', or_none (row ! idx_govuk cols)),
         (''source_url'', or_none (row ! idx_src cols)),
         (''confidence'', or_none (row ! idx_conf cols)),
         (''notes'', or_none (row ! idx_notes cols))],
      ck_note = None\<rparr>"

text \<open>The retry loop and the merge for a row that is not skipped.\<close>

definition enrich_row ::
  "config \<Rightarrow> p1_env \<Rightarrow> p1_cols \<Rightarrow> nat \<Rightarrow> string \<Rightarrow> string \<Rightarrow> string list \<Rightarrow>
   string list \<times> string list" where
  "enrich_row cfg env cols i address postcode row =
     (let r = phase1_retry (retry_settings cfg) (p1_agent env i) (p1_rnd env i)
      in apply_results (fmt2 env) cols address postcode (rs_attempt r)
           (row_retries (retry_settings cfg)) (rs_info r) row)"

definition process_row ::
  "config \<Rightarrow> p1_env \<Rightarrow> p1_cols \<Rightarrow> string list \<Rightarrow> nat \<Rightarrow> string list \<Rightarrow>
   string list \<times> string list \<times> checkpoint" where
  "process_row cfg env cols output_header i row0 =
     (let row = row0 @ replicate (length output_header - length row0) [];
          address = (if idx_address cols < length row then strip (row ! idx_address cols) else []);
          postcode = (if idx_pc cols < length row then strip (row ! idx_pc cols) else [])
      in if address = [] \<and> postcode = []
         then (row, [], skip_checkpoint i address postcode)
         else (let (row1, nums) = enrich_row cfg env cols i address postcode row
               in (row1, nums, row_checkpoint cols i address postcode row1 nums)))"

definition phase1_row ::
  "config \<Rightarrow> p1_env \<Rightarrow> dialect \<Rightarrow> p1_cols \<Rightarrow> string list \<Rightarrow> nat \<Rightarrow> string list \<Rightarrow>
   p1_state \<Rightarrow> p1_state" where
  "phase1_row cfg env dialect cols output_header i row0 st =
     (let (row, nums, record) = process_row cfg env cols output_header i row0;
          st1 = st\<lparr>processed_rows := processed_rows st @ [row],
                    phone_lists := phone_lists st @ [nums]\<rparr>;
          st2 = st1\<lparr>files_of := write_checkpoint (checkpoint_ok env i) record (files_of st1)\<rparr>
      in autosave1 cfg env dialect output_header i st2)"

fun phase1_loop ::
  "config \<Rightarrow> p1_env \<Rightarrow> dialect \<Rightarrow> p1_cols \<Rightarrow> string list \<Rightarrow> nat \<Rightarrow> string list list \<Rightarrow>
   p1_state \<Rightarrow> p1_state" where
  "phase1_loop cfg env dialect cols output_header i [] st = st"
| "phase1_loop cfg env dialect cols output_header i (row # data_rows) st =
     phase1_loop cfg env dialect cols output_header (i + 1) data_rows
       (phase1_row cfg env dialect cols output_header i row st)"

text \<open>
  Lines 286-295: the final header, the phones written into the rows, and the output
  file. An exception here leaves \<open>main\<close>.
\<close>

definition phase1_finish ::
  "p1_env \<Rightarrow> dialect \<Rightarrow> string list \<Rightarrow> p1_state \<Rightarrow> py_error + files" where
  "phase1_finish env dialect output_header st =
     (let header = ensure_phone_cols output_header (max_len (phone_lists st))
      in (case fill_all (zip (processed_rows st) (phone_lists st)) header [] of
            Inl e \<Rightarrow> Inl e
          | Inr (rows1, header1) \<Rightarrow>
              (case write_file (output_io env)
                      (write_rows dialect header1
                         (rows1 @ drop (length (phone_lists st)) (processed_rows st))) of
                 Inl e \<Rightarrow> Inl e
               | Inr content \<Rightarrow> Inr ((files_of st)\<lparr>output_csv := content\<rparr>))))"

text \<open>
  \<open>main\<close> from the rows \<open>read_rows\<close> returned and the sniffed dialect and header flag
  on. The checks of the API key and of the input path come before and are left out.
\<close>

definition phase1_main ::
  "config \<Rightarrow> p1_env \<Rightarrow> dialect \<Rightarrow> bool \<Rightarrow> string list list \<Rightarrow> files \<Rightarrow> py_error + files" where
  "phase1_main cfg env dialect has_header rows fs0 =
     (case rows of
        [] \<Rightarrow> Inr fs0
      | header # data_rows \<Rightarrow>
          if \<not> has_header then Inl ValueError
          else
            (let (cols, output_header) = phase1_header header;
                 st = phase1_loop cfg env dialect cols output_header 1 data_rows
                        \<lparr>processed_rows = [], phone_lists = [], files_of = fs0\<rparr>
             in phase1_finish env dialect output_header st))"

text \<open>The rows and phone lists a Phase 1 run has after its loop.\<close>

definition phase1_rows ::
  "config \<Rightarrow> p1_env \<Rightarrow> dialect \<Rightarrow> string list list \<Rightarrow> files \<Rightarrow> p1_state" where
  "phase1_rows cfg env dialect rows fs0 =
     (let (cols, output_header) = phase1_header (hd rows)
      in phase1_loop cfg env dialect cols output_header 1 (tl rows)
           \<lparr>processed_rows = [], phone_lists = [], files_of = fs0\<rparr>)"

text \<open>
  A sample run: the default retry settings with a snapshot after every row, an agent
  that raises at every attempt, writes that all succeed, the dialect of the sniffing
  fallback for a comma-separated file, and no files at the start.
\<close>

definition sample_config :: config where
  "sample_config = \<lparr>retry_settings = default_cfg, partial_every = 1, target_setting = 3\<rparr>"

definition failing_agent :: "nat \<Rightarrow> nat \<Rightarrow> company_info option outcome" where
  "failing_agent i a = Raised"

definition half_jitter :: "nat \<Rightarrow> nat \<Rightarrow> real" where
  "half_jitter i a = 1 / 2"

definition all_true :: "nat \<Rightarrow> bool" where
  "all_true i = True"

definition all_written :: "nat \<Rightarrow> io_result" where
  "all_written i = Written"

definition quiet_env :: p1_env where
  "quiet_env = \<lparr>p1_agent = failing_agent, p1_rnd = half_jitter, fmt2 = no_fmt,
     checkpoint_ok = all_true, snapshot_io = all_written, output_io = Written\<rparr>"

definition comma_dialect :: dialect where
  "comma_dialect = \<lparr>delimiter = CHR '','', quotechar = DQUOTE, doublequote = True,
     skipinitialspace = True, lineterminator = [LF]\<rparr>"

definition no_files :: files where
  "no_files = \<lparr>output_csv = None, partial_csv = None, checkpoint_jsonl = []\<rparr>"

definition two_col_header :: "string list" where
  "two_col_header = [''ADDRESS'', ''POSTCODE'']"


text \<open>A data row with more cells than the output header will have columns.\<close>

definition long_row :: "string list list" where
  "long_row = [[''10 Main St'', ''AB1 2CD'', ''c'', ''d'', ''e'', ''f'', ''g'', ''h'', ''i'', ''j'', ''k'']]"

section \<open>Phase 2: the row loop and the final writes (phase2_contacts.py, main)\<close>

text \<open>
  \<open>ensure_contact_cols\<close>: for each slot the indices of its name, title, profile and
  e-mail columns (slot 1 with the bare names, slot \<open>k\<close> with the suffix \<open>" k"\<close>), and the
  header as extended. The list holds slot 1 first.
\<close>

definition suffix :: "nat \<Rightarrow> string" where
  "suffix k = (if k = 1 then [] else '' '' @ show_nat k)"

fun ensure_contact_loop ::
  "nat list \<Rightarrow> string list \<Rightarrow> (nat \<times> nat \<times> nat \<times> nat) list \<Rightarrow>
   (nat \<times> nat \<times> nat \<times> nat) list \<times> string list" where
  "ensure_contact_loop [] header idx = (idx, header)"
| "ensure_contact_loop (k # ks) header idx =
     (let (i_name, h1) = ensure_col_exact header (OUT_COL_CONTACT_NAME @ suffix k);
          (i_title, h2) = ensure_col_exact h1 (OUT_COL_CONTACT_TITLE @ suffix k);
          (i_linkedin, h3) = ensure_col_exact h2 (OUT_COL_CONTACT_LINKEDIN @ suffix k);
          (i_email, h4) = ensure_col_exact h3 (OUT_COL_CONTACT_EMAIL @ suffix k)
      in ensure_contact_loop ks h4 (idx @ [(i_name, i_title, i_linkedin, i_email)]))"

definition ensure_contact_cols ::
  "string list \<Rightarrow> nat \<Rightarrow> (nat \<times> nat \<times> nat \<times> nat) list \<times> string list" where
  "ensure_contact_cols header max_contacts =
     ensure_contact_loop [1 ..< max_contacts + 1] header []"

record p2_cols =
  idx2_name :: nat
  idx2_govuk :: nat
  idx2_src :: nat
  idx2_conf :: nat
  idx2_notes :: nat
  contact_cols :: "(nat \<times> nat \<times> nat \<times> nat) list"

definition phase2_header :: "int \<Rightarrow> string list \<Rightarrow> p2_cols \<times> string list" where
  "phase2_header t header =
     (let (i_name, h1) = ensure_col_exact header OUT_COL_COMPANY_NAME;
          (i_govuk, h2) = ensure_col_exact h1 OUT_COL_GOVUK_URL;
          (i_src, h3) = ensure_col_exact h2 OUT_COL_SOURCE_URL;
          (i_conf, h4) = ensure_col_exact h3 OUT_COL_CONFIDENCE;
          (i_notes, h5) = ensure_col_exact h4 OUT_COL_NOTES;
          (cc, h6) = ensure_contact_cols h5 (target_contacts t)
      in (\<lparr>idx2_name = i_name, idx2_govuk = i_govuk, idx2_src = i_src, idx2_conf = i_conf,
           idx2_notes = i_notes, contact_cols = cc\<rparr>, h6))"

text \<open>
  The environment of a Phase 2 run. \<open>fmt_conf\<close> stands for
  \<open>f"{float(x):.2f}"\<close>, \<open>None\<close> where \<open>float\<close> raises.
\<close>

record p2_env =
  p2_agent :: "nat \<Rightarrow> nat \<Rightarrow> json outcome"
  p2_rnd :: "nat \<Rightarrow> nat \<Rightarrow> real"
  fmt_conf :: "json \<Rightarrow> string option"
  checkpoint2_ok :: "nat \<Rightarrow> bool"
  snapshot2_io :: "nat \<Rightarrow> io_result"
  output2_io :: io_result
  final_snapshot_io :: io_result

record p2_state =
  processed2 :: "string list list"
  files2 :: files

text \<open>
  The body of \<open>for slot, contact in enumerate(contacts[:TARGET_CONTACTS], start=1)\<close>.
\<close>

definition write_contact ::
  "p2_env \<Rightarrow> p2_cols \<Rightarrow> nat \<Rightarrow> int \<Rightarrow> nat \<Rightarrow> contact \<Rightarrow> string list \<Rightarrow> string list" where
  "write_contact env cols attempt retries slot c row =
     (let (i_name, i_title, i_linkedin, i_email) = contact_cols cols ! (slot - 1);
          row1 = row[i_name := str_or (row ! i_name) (c_name c)];
          row2 = row1[i_title := str_or (row1 ! i_title) (c_title c)];
          row3 = (if c_linkedin c \<noteq> [] then row2[i_linkedin := str_or (row2 ! i_linkedin) (c_linkedin c)]
                  else row2);
          row4 = (if c_email c \<noteq> [] then row3[i_email := str_or (row3 ! i_email) (c_email c)]
                  else row3);
          row5 = (if c_source_url c \<noteq> [] \<and> row4 ! idx2_src cols = []
                  then row4[idx2_src cols := c_source_url c] else row4);
          row6 = (if c_confidence c \<noteq> JNull \<and> row5 ! idx2_conf cols = []
                  then (case fmt_conf env (c_confidence c) of
                          None \<Rightarrow> row5
                        | Some text \<Rightarrow> row5[idx2_conf cols := text])
                  else row5);
          attempts_note = ''Phase2 attempts: '' @ show_nat attempt @ ''/'' @ show_int retries;
          note_bits = [str_or (row6 ! idx2_notes cols) [], str_or (c_notes c) [], attempts_note]
      in row6[idx2_notes cols := strip_chars ''; '' (join ''; '' (filter (\<lambda>s. s \<noteq> []) note_bits))])"

fun write_contacts ::
  "p2_env \<Rightarrow> p2_cols \<Rightarrow> nat \<Rightarrow> int \<Rightarrow> nat \<Rightarrow> contact list \<Rightarrow> string list \<Rightarrow> string list" where
  "write_contacts env cols attempt retries slot [] row = row"
| "write_contacts env cols attempt retries slot (c # cs) row =
     write_contacts env cols attempt retries (slot + 1) cs
       (write_contact env cols attempt retries slot c row)"

definition contact_json :: "contact \<Rightarrow> json" where
  "contact_json c = JDict
     [(''contact_name'', JStr (c_name c)), (''contact_title'', JStr (c_title c)),
      (''contact_linkedin'', JStr (c_linkedin c)), (''contact_email'', JStr (c_email c)),
      (''source_url'', JStr (c_source_url c)), (''confidence'', c_confidence c),
      (''notes'', JStr (c_notes c))]"

text \<open>
  What a row becomes in Phase 2, with its checkpoint record. \<open>ROW_RETRIES\<close> is
  \<open>max(1, ROW_RETRIES)\<close> here.
\<close>

definition process_row2 ::
  "config \<Rightarrow> p2_env \<Rightarrow> p2_cols \<Rightarrow> string list \<Rightarrow> nat \<Rightarrow> string list \<Rightarrow>
   string list \<times> checkpoint" where
  "process_row2 cfg env cols output_header i row0 =
     (let row = row0 @ replicate (length output_header - length row0) [];
          company = strip (str_or (row ! idx2_name cols) []);
          govuk = strip (str_or (row ! idx2_govuk cols) []);
          input = [(''company_name'', JStr company), (''govuk_url'', or_none govuk)]
      in if company = []
         then (row, \<lparr>ck_row_index = i, ck_input = input, ck_output = None,
                      ck_note = Some ''Skipped (missing company_name)''\<rparr>)
         else (let r = phase2_retry (retry_settings cfg) (target_setting cfg) (p2_agent env i)
                         (p2_rnd env i);
                   contacts = rs_info r;
                   row1 = write_contacts env cols (rs_attempt r)
                            (max 1 (row_retries (retry_settings cfg))) 1
                            (take (target_contacts (target_setting cfg)) contacts) row
               in (row1, \<lparr>ck_row_index = i, ck_input = input,
                           ck_output = Some [(''contacts_found'', JNum (real (length contacts))),
                                             (''contacts'', JList (map contact_json contacts))],
                           ck_note = None\<rparr>)))"

text \<open>
  \<open>write_partial_snapshot\<close> of Phase 2, which catches every exception of
  \<open>write_rows\<close> itself, behind the test of the row counter.
\<close>

definition write_partial_snapshot ::
  "io_result \<Rightarrow> dialect \<Rightarrow> string list \<Rightarrow> string list list \<Rightarrow> files \<Rightarrow> files" where
  "write_partial_snapshot io dialect header rows fs =
     (case write_file io (write_rows dialect header rows) of
        Inl e \<Rightarrow> fs\<lparr>partial_csv := left_behind io (partial_csv fs)\<rparr>
      | Inr content \<Rightarrow> fs\<lparr>partial_csv := content\<rparr>)"

definition autosave2 ::
  "config \<Rightarrow> p2_env \<Rightarrow> dialect \<Rightarrow> string list \<Rightarrow> nat \<Rightarrow> p2_state \<Rightarrow> p2_state" where
  "autosave2 cfg env dialect output_header i st =
     (if 0 < partial_every cfg \<and> int i mod partial_every cfg = 0
      then st\<lparr>files2 := write_partial_snapshot (snapshot2_io env i) dialect output_header
                            (processed2 st) (files2 st)\<rparr>
      else st)"

definition phase2_row ::
  "config \<Rightarrow> p2_env \<Rightarrow> dialect \<Rightarrow> p2_cols \<Rightarrow> string list \<Rightarrow> nat \<Rightarrow> string list \<Rightarrow>
   p2_state \<Rightarrow> p2_state" where
  "phase2_row cfg env dialect cols output_header i row0 st =
     (let (row, ck) = process_row2 cfg env cols output_header i row0;
          st1 = st\<lparr>processed2 := processed2 st @ [row]\<rparr>;
          st2 = st1\<lparr>files2 := write_checkpoint (checkpoint2_ok env i) ck (files2 st1)\<rparr>
      in autosave2 cfg env dialect output_header i st2)"

fun phase2_loop ::
  "config \<Rightarrow> p2_env \<Rightarrow> dialect \<Rightarrow> p2_cols \<Rightarrow> string list \<Rightarrow> nat \<Rightarrow> string list list \<Rightarrow>
   p2_state \<Rightarrow> p2_state" where
  "phase2_loop cfg env dialect cols output_header i [] st = st"
| "phase2_loop cfg env dialect cols output_header i (row # data_rows) st =
     phase2_loop cfg env dialect cols output_header (i + 1) data_rows
       (phase2_row cfg env dialect cols output_header i row st)"

text \<open>
  Lines 320-331: the phone column is ensured, the output is written, and a final
  snapshot with the same header and rows goes to the partial file; only the latter
  write is guarded.
\<close>

definition phase2_finish ::
  "p2_env \<Rightarrow> dialect \<Rightarrow> string list \<Rightarrow> p2_state \<Rightarrow> py_error + files" where
  "phase2_finish env dialect output_header st =
     (let header = ensure_phone_cols output_header 1
      in (case write_file (output2_io env) (write_rows dialect header (processed2 st)) of
            Inl e \<Rightarrow> Inl e
          | Inr content \<Rightarrow>
              Inr (write_partial_snapshot (final_snapshot_io env) dialect header (processed2 st)
                     ((files2 st)\<lparr>output_csv := content\<rparr>))))"

definition phase2_main ::
  "config \<Rightarrow> p2_env \<Rightarrow> dialect \<Rightarrow> bool \<Rightarrow> string list list \<Rightarrow> files \<Rightarrow> py_error + files" where
  "phase2_main cfg env dialect has_header rows fs0 =
     (case rows of
        [] \<Rightarrow> Inr fs0
      | header # data_rows \<Rightarrow>
          if \<not> has_header then Inl ValueError
          else
            (let (cols, output_header) = phase2_header (target_setting cfg) header;
                 st = phase2_loop cfg env dialect cols output_header 1 data_rows
                        \<lparr>processed2 = [], files2 = fs0\<rparr>
             in phase2_finish env dialect output_header st))"

text \<open>A Phase 2 sample run: the agent raises at every attempt, every write succeeds.\<close>

definition failing_agent2 :: "nat \<Rightarrow> nat \<Rightarrow> json outcome" where
  "failing_agent2 i a = Raised"

definition no_conf :: "json \<Rightarrow> string option" where
  "no_conf x = None"

definition quiet_env2 :: p2_env where
  "quiet_env2 = \<lparr>p2_agent = failing_agent2, p2_rnd = half_jitter, fmt_conf = no_conf,
     checkpoint2_ok = all_true, snapshot2_io = all_written, output2_io = Written,
     final_snapshot_io = Written\<rparr>"

text \<open>The default settings: a snapshot every 20 rows.\<close>

definition default_config :: config where
  "default_config = \<lparr>retry_settings = default_cfg, partial_every = 20, target_setting = 3\<rparr>"

definition named_rows :: "string list list" where
  "named_rows = [[''ADDRESS'', ''COMPANY NAME''], [''10 Main St'', ''X Ltd'']]"

section \<open>Properties\<close>

subsection \<open>The success predicate\<close>

lemma attempt_has_core_spec: "attempt_has_core info = spec_success info"
  by (cases info)
     (auto simp: attempt_has_core_def spec_success_def spec_has_core_def present_def
                 truthy_str_def opt_and_def Let_def split: option.splits)

subsection \<open>The retry loop\<close>

lemma calls_of_append: "calls_of (xs @ ys) = calls_of xs @ calls_of ys"
  by (induction xs rule: calls_of.induct) auto


lemma result_at_unfold:
  "(case agent a of Raised \<Rightarrow> dflt | Returned r \<Rightarrow> r) = result_at dflt agent a"
  by (simp add: result_at_def)

text \<open>The state after a failed attempt and its backoff sleep.\<close>

lemma retry_loop_failed:
  assumes "\<not> ok (result_at dflt agent (rs_attempt st + 1))"
  shows "retry_loop cfg ok dflt agent rnd (Suc n) st =
         retry_loop cfg ok dflt agent rnd n
           (st\<lparr>rs_info := result_at dflt agent (rs_attempt st + 1),
               rs_attempt := rs_attempt st + 1,
               rs_trace := rs_trace st @
                 [Call (rs_attempt st + 1),
                  Sleep (min (max_sleep cfg)
                    (rs_sleep_s st + uniform 0 (2 / 5 * rs_sleep_s st) (rnd (rs_attempt st + 1))))],
               rs_sleep_s := min (max_sleep cfg) (rs_sleep_s st * backoff_base cfg)\<rparr>)"
  using assms by (simp add: Let_def result_at_def)

lemma retry_loop_succeeded:
  assumes "ok (result_at dflt agent (rs_attempt st + 1))"
  shows "retry_loop cfg ok dflt agent rnd (Suc n) st =
         st\<lparr>rs_info := result_at dflt agent (rs_attempt st + 1),
            rs_attempt := rs_attempt st + 1,
            rs_trace := rs_trace st @ [Call (rs_attempt st + 1)]\<rparr>"
  using assms by (simp add: Let_def result_at_def)


lemma retry_all_fail:
  "(\<forall>a. rs_attempt st < a \<and> a \<le> rs_attempt st + n \<longrightarrow> \<not> ok (result_at dflt agent a)) \<Longrightarrow>
   rs_attempt (retry_loop cfg ok dflt agent rnd n st) = rs_attempt st + n
   \<and> calls_of (rs_trace (retry_loop cfg ok dflt agent rnd n st))
       = calls_of (rs_trace st) @ [rs_attempt st + 1 ..< rs_attempt st + n + 1]"
proof (induction n arbitrary: st)
  case 0
  then show ?case by simp
next
  case (Suc n)
  have nok: "\<not> ok (result_at dflt agent (rs_attempt st + 1))" using Suc.prems by simp
  show ?case unfolding retry_loop_failed [where ok = ok and dflt = dflt and agent = agent and st = st, OF nok]
    using Suc.prems
    by (subst Suc.IH, simp, subst Suc.IH, simp)
       (simp add: calls_of_append upt_rec [of "Suc (rs_attempt st)"])
qed

lemma retry_first_ok:
  "rs_attempt st < a \<Longrightarrow> a \<le> rs_attempt st + n \<Longrightarrow> ok (result_at dflt agent a) \<Longrightarrow>
   (\<forall>b. rs_attempt st < b \<and> b < a \<longrightarrow> \<not> ok (result_at dflt agent b)) \<Longrightarrow>
   rs_attempt (retry_loop cfg ok dflt agent rnd n st) = a
   \<and> rs_info (retry_loop cfg ok dflt agent rnd n st) = result_at dflt agent a"
proof (induction n arbitrary: st)
  case 0
  then show ?case by simp
next
  case (Suc n)
  show ?case
  proof (cases "ok (result_at dflt agent (rs_attempt st + 1))")
    case True
    have "\<not> rs_attempt st + 1 < a" using True Suc.prems(4) by auto
    then have "a = rs_attempt st + 1" using Suc.prems(1) by simp
    then show ?thesis unfolding retry_loop_succeeded [where ok = ok and dflt = dflt and agent = agent and st = st, OF True] by simp
  next
    case False
    have ne: "a \<noteq> rs_attempt st + 1" using False Suc.prems(3) by auto
    show ?thesis unfolding retry_loop_failed [where ok = ok and dflt = dflt and agent = agent and st = st, OF False]
      using Suc.prems ne by (intro Suc.IH) auto
  qed
qed




subsection \<open>First-seen de-duplication\<close>

lemma first_seen_filter: "first_seen (filter P xs) = filter P (first_seen xs)"
proof (induction xs)
  case Nil
  then show ?case by simp
next
  case (Cons x xs)
  show ?case
  proof (cases "P x")
    case True
    then show ?thesis using Cons.IH by (simp add: conj_commute)
  next
    case False
    have "filter P (filter (\<lambda>y. y \<noteq> x) (first_seen xs)) = filter P (first_seen xs)"
      unfolding filter_filter using False by (intro filter_cong) auto
    then show ?thesis using False Cons.IH by simp
  qed
qed

lemma set_first_seen: "set (first_seen xs) = set xs"
  by (induction xs) auto

lemma distinct_first_seen: "distinct (first_seen xs)"
  by (induction xs) auto

lemma dedupe_loop_eq:
  "dedupe_loop xs seen out = out @ first_seen (filter (\<lambda>x. x \<noteq> [] \<and> x \<notin> seen) xs)"
proof (induction xs arbitrary: seen out)
  case Nil
  then show ?case by simp
next
  case (Cons x xs)
  show ?case
  proof (cases "x \<noteq> [] \<and> x \<notin> seen")
    case True
    have "filter (\<lambda>y. y \<noteq> x) (first_seen (filter (\<lambda>x. x \<noteq> [] \<and> x \<notin> seen) xs))
          = first_seen (filter (\<lambda>y. y \<noteq> [] \<and> y \<notin> insert x seen) xs)"
      unfolding first_seen_filter [symmetric] filter_filter
      by (rule arg_cong [where f = first_seen], rule filter_cong) auto
    then show ?thesis using True Cons.IH [of "insert x seen" "out @ [x]"] by simp
  next
    case False
    then show ?thesis using Cons.IH [of seen out] by auto
  qed
qed

lemma dedupe_keep_order_eq:
  "dedupe_keep_order xs = first_seen (filter (\<lambda>x. x \<noteq> []) xs)"
  by (simp add: dedupe_keep_order_def dedupe_loop_eq)


subsection \<open>Claim C3: the Phase 1 success predicate\<close>

text \<open>
  C3. For every enrichment result, \<open>None\<close> included, \<open>attempt_has_core\<close> is true exactly
  when website and email are both present, or the phone list is present and non-empty,
  or company name and registry URL are both present. A result that meets none of the
  three is a failed attempt: when every attempt of a row fails the rule, the retry loop
  makes all its calls, and otherwise it stops at the first attempt whose result meets
  the rule and keeps that result.
\<close>

theorem attempt_has_core_iff_spec:
  "(attempt_has_core info \<longleftrightarrow>
      (\<exists>i. info = Some i \<and>
         ((present (website i) \<and> present (email i))
          \<or> (numbers i \<noteq> None \<and> numbers i \<noteq> Some [])
          \<or> (present (company_name i) \<and> present (govuk_url i)))))
   \<and> ((\<forall>a. 1 \<le> a \<and> a \<le> nat (row_retries cfg) \<longrightarrow> \<not> spec_success (result_at None agent a)) \<longrightarrow>
        calls_of (rs_trace (phase1_retry cfg agent rnd)) = [1 ..< nat (row_retries cfg) + 1])
   \<and> (1 \<le> a \<and> a \<le> nat (row_retries cfg) \<and> spec_success (result_at None agent a)
        \<and> (\<forall>b. 1 \<le> b \<and> b < a \<longrightarrow> \<not> spec_success (result_at None agent b)) \<longrightarrow>
        rs_attempt (phase1_retry cfg agent rnd) = a
        \<and> rs_info (phase1_retry cfg agent rnd) = result_at None agent a)"
proof (intro conjI impI)
  show "attempt_has_core info \<longleftrightarrow>
      (\<exists>i. info = Some i \<and>
         ((present (website i) \<and> present (email i))
          \<or> (numbers i \<noteq> None \<and> numbers i \<noteq> Some [])
          \<or> (present (company_name i) \<and> present (govuk_url i))))"
    by (cases info) (simp_all add: attempt_has_core_spec spec_success_def spec_has_core_def)
next
  assume "\<forall>a. 1 \<le> a \<and> a \<le> nat (row_retries cfg) \<longrightarrow> \<not> spec_success (result_at None agent a)"
  then have "\<forall>a. rs_attempt (retry_init cfg None) < a \<and> a \<le> rs_attempt (retry_init cfg None) + nat (row_retries cfg)
      \<longrightarrow> \<not> attempt_has_core (result_at None agent a)"
    by (simp add: attempt_has_core_spec retry_init_def Suc_le_eq)
  from retry_all_fail [OF this, of cfg rnd]
  show "calls_of (rs_trace (phase1_retry cfg agent rnd)) = [1 ..< nat (row_retries cfg) + 1]"
    by (simp add: phase1_retry_def retry_init_def)
next
  assume h: "1 \<le> a \<and> a \<le> nat (row_retries cfg) \<and> spec_success (result_at None agent a)
        \<and> (\<forall>b. 1 \<le> b \<and> b < a \<longrightarrow> \<not> spec_success (result_at None agent b))"
  have "rs_attempt (retry_loop cfg attempt_has_core None agent rnd (nat (row_retries cfg)) (retry_init cfg None)) = a
    \<and> rs_info (retry_loop cfg attempt_has_core None agent rnd (nat (row_retries cfg)) (retry_init cfg None)) = result_at None agent a"
    using h by (intro retry_first_ok) (auto simp: attempt_has_core_spec retry_init_def)
  then show "rs_attempt (phase1_retry cfg agent rnd) = a" "rs_info (phase1_retry cfg agent rnd) = result_at None agent a"
    by (simp_all add: phase1_retry_def)
qed

theorem attempt_has_core_iff_spec_witness:
  "attempt_has_core (Some site_and_inbox) \<and> \<not> attempt_has_core (Some notes_only)
   \<and> calls_of (rs_trace (phase1_retry default_cfg always_raises jitter_half)) = [1, 2, 3, 4, 5]
   \<and> rs_attempt (phase1_retry default_cfg
        (scripted [Returned (Some notes_only), Returned (Some site_and_inbox)]) jitter_half) = 2"
proof -
  have v: "\<And>i. spec_success (Some i) = spec_has_core i" "spec_success None = False"
    by (simp_all add: spec_success_def)
  have s1: "spec_has_core site_and_inbox" by (simp add: spec_has_core_def site_and_inbox_def empty_info_def present_def)
  have s2: "\<not> spec_has_core notes_only" by (simp add: spec_has_core_def notes_only_def empty_info_def present_def)
  have R: "nat (row_retries default_cfg) = 5" by (simp add: default_cfg_def)
  have a: "attempt_has_core (Some site_and_inbox)"
    using attempt_has_core_iff_spec [of "Some site_and_inbox"] s1
    by (simp add: spec_has_core_def)
  have b: "\<not> attempt_has_core (Some notes_only)"
    using attempt_has_core_iff_spec [of "Some notes_only"] s2
    by (simp add: spec_has_core_def)
  have c: "calls_of (rs_trace (phase1_retry default_cfg always_raises jitter_half)) = [1, 2, 3, 4, 5]"
    using attempt_has_core_iff_spec [where cfg = default_cfg and agent = always_raises and rnd = jitter_half]
    by (simp add: R result_at_def always_raises_def v upt_rec)
  have d: "rs_attempt (phase1_retry default_cfg
        (scripted [Returned (Some notes_only), Returned (Some site_and_inbox)]) jitter_half) = 2"
    using attempt_has_core_iff_spec [where cfg = default_cfg and a = 2 and rnd = jitter_half
        and agent = "scripted [Returned (Some notes_only), Returned (Some site_and_inbox)]"] s1 s2
    by (auto simp add: R result_at_def scripted_def v)
  show ?thesis using a b c d by simp
qed

subsection \<open>Claim C2: bounded retry and backoff\<close>





subsection \<open>Claim C7: the merged phone list\<close>

lemma phase1_nums_example:
  "phase1_nums (Some [''+44 (0)20 7946 0958'', ''12'', ''020 7946 0000'', ''+44020-7946-0958''])
     = [''+4402079460958'', ''02079460000'']"
  by (simp add: phase1_nums_def clean_phone_def strip_def is_space_def is_digit_def dedupe_keep_order_def)

text \<open>
  C7 (as amended). For every list of phone strings of an enrichment result, the merged
  phone list holds the cleaned entries (digits and plus signs only) whose cleaned form
  has at least 7 characters, digits and plus signs counted alike, each once and in
  first-seen order; an entry whose cleaned form is shorter than 7 characters is
  discarded.
\<close>

theorem phase1_nums_first_seen:
  "phase1_nums (Some ns) = first_seen (filter (\<lambda>p. 7 \<le> length p) (map clean_phone ns))
   \<and> distinct (phase1_nums (Some ns))
   \<and> (p \<in> set (phase1_nums (Some ns)) \<longleftrightarrow>
        (\<exists>n \<in> set ns. p = clean_phone n \<and> 7 \<le> length (clean_phone n)))
   \<and> (\<forall>q \<in> set (phase1_nums (Some ns)). \<forall>c \<in> set q. is_digit c \<or> c = CHR ''+'')"
proof -
  have ne: "filter (\<lambda>x. x \<noteq> []) (filter (\<lambda>p. 7 \<le> length p) (map clean_phone ns))
            = filter (\<lambda>p. 7 \<le> length p) (map clean_phone ns)"
    unfolding filter_filter by (rule filter_cong) auto
  have "phase1_nums (Some ns) = dedupe_keep_order (filter (\<lambda>p. 7 \<le> length p) (map clean_phone ns))"
    by (cases ns) (simp_all add: phase1_nums_def dedupe_keep_order_def)
  then have eq: "phase1_nums (Some ns) = first_seen (filter (\<lambda>p. 7 \<le> length p) (map clean_phone ns))"
    unfolding dedupe_keep_order_eq ne .
  have st: "set (phase1_nums (Some ns)) = {q. \<exists>n \<in> set ns. q = clean_phone n \<and> 7 \<le> length (clean_phone n)}"
    unfolding eq set_first_seen by auto
  have ch: "\<forall>q \<in> set (phase1_nums (Some ns)). \<forall>c \<in> set q. is_digit c \<or> c = CHR ''+''"
    unfolding st by (auto simp: clean_phone_def)
  have ds: "distinct (phase1_nums (Some ns))" unfolding eq by (rule distinct_first_seen)
  show ?thesis using eq ds ch unfolding st by blast
qed

theorem phase1_nums_first_seen_witness:
  "phase1_nums (Some [''+44 (0)20 7946 0958'', ''12'', ''020 7946 0000'', ''+44020-7946-0958''])
     = first_seen [''+4402079460958'', ''02079460000'', ''+4402079460958'']
   \<and> distinct (phase1_nums (Some [''+44 (0)20 7946 0958'', ''12'', ''020 7946 0000'', ''+44020-7946-0958'']))"
proof -
  have c: "clean_phone ''+44 (0)20 7946 0958'' = ''+4402079460958''" "clean_phone ''12'' = ''12''"
    "clean_phone ''020 7946 0000'' = ''02079460000''" "clean_phone ''+44020-7946-0958'' = ''+4402079460958''"
    by (simp_all add: clean_phone_def strip_def is_space_def is_digit_def)
  show ?thesis
    using phase1_nums_first_seen [of "[''+44 (0)20 7946 0958'', ''12'', ''020 7946 0000'', ''+44020-7946-0958'']"]
    unfolding phase1_nums_example by (simp add: c)
qed

theorem phase1_nums_digits_counterexample:
  "phase1_nums (Some [''+123456'']) = [''+123456'']
   \<and> length (filter is_digit (clean_phone ''+123456'')) = 6"
  by (simp add: phase1_nums_def clean_phone_def strip_def is_space_def is_digit_def dedupe_keep_order_def)

subsection \<open>Phase 2 contact parsing\<close>

lemma strip_Nil [simp]: "strip [] = []"
  by (simp add: strip_def)













subsection \<open>Claim C10: the Phase 2 success test\<close>


lemma phase2_samples:
  "attempt_contacts 3 (Returned nameless_payload) = []"
  "attempt_contacts 3 (Returned director_payload) =
     [\<lparr>c_name = ''Ann Lee'', c_title = ''Director'', c_linkedin = [], c_email = ''ann@x.com'',
       c_source_url = [], c_confidence = JNull, c_notes = []\<rparr>]"
  by code_simp+


subsection \<open>Merging keeps filled cells\<close>





lemma length_fill_if_present [simp]: "length (fill_if_present i v f row) = length row"
  by (simp add: fill_if_present_def)

lemma length_merge_info [simp]:
  "length (merge_info fmt cols address postcode attempt retries info row) = length row"
  by (simp add: merge_info_def Let_def split: option.splits)









subsection \<open>Claim C1: the merge and filled cells\<close>









subsection \<open>The shape of a snapshot\<close>












subsection \<open>The Phase 1 row loop\<close>

lemma autosave1_rows [simp]:
  "processed_rows (autosave1 cfg env dialect h i st) = processed_rows st"
  "phone_lists (autosave1 cfg env dialect h i st) = phone_lists st"
  by (simp_all add: autosave1_def split: sum.splits prod.splits)




lemma phase1_row_unfold:
  "phase1_row cfg env dialect cols h i row0 st =
     autosave1 cfg env dialect h i
       (st\<lparr>processed_rows := processed_rows st @ [fst (process_row cfg env cols h i row0)],
            phone_lists := phone_lists st @ [fst (snd (process_row cfg env cols h i row0))],
            files_of := write_checkpoint (checkpoint_ok env i)
                           (snd (snd (process_row cfg env cols h i row0))) (files_of st)\<rparr>)"
proof -
  obtain row nums ck where p: "process_row cfg env cols h i row0 = (row, nums, ck)"
    by (cases "process_row cfg env cols h i row0") auto
  show ?thesis unfolding phase1_row_def p Let_def prod.case fst_conv snd_conv by simp
qed


lemma phase1_row_rows:
  "processed_rows (phase1_row cfg env dialect cols h i row0 st)
     = processed_rows st @ [fst (process_row cfg env cols h i row0)]"
  "phone_lists (phase1_row cfg env dialect cols h i row0 st)
     = phone_lists st @ [fst (snd (process_row cfg env cols h i row0))]"
  unfolding phase1_row_unfold by simp_all




subsection \<open>Claim C4: the snapshot after row k\<close>






lemma long_row_state:
  "processed_rows (phase1_rows sample_config quiet_env comma_dialect (two_col_header # take 1 long_row) no_files)
     = long_row"
  "phone_lists (phase1_rows sample_config quiet_env comma_dialect (two_col_header # take 1 long_row) no_files)
     = [[]]"
  by code_simp+


subsection \<open>Rows and output do not depend on the guarded writes\<close>

text \<open>The rows of a run in closed form: they depend on no write.\<close>

lemma phase1_loop_closed:
  "processed_rows (phase1_loop cfg env dialect cols h i rows st)
     = processed_rows st @ map (\<lambda>(j, row). fst (process_row cfg env cols h j row))
                            (zip [i ..< i + length rows] rows)
   \<and> phone_lists (phase1_loop cfg env dialect cols h i rows st)
     = phone_lists st @ map (\<lambda>(j, row). fst (snd (process_row cfg env cols h j row)))
                            (zip [i ..< i + length rows] rows)"
proof (induction rows arbitrary: i st)
  case Nil
  then show ?case by simp
next
  case (Cons row rows)
  define st1 where "st1 = phase1_row cfg env dialect cols h i row st"
  have step: "phase1_loop cfg env dialect cols h i (row # rows) st
      = phase1_loop cfg env dialect cols h (i + 1) rows st1"
    unfolding st1_def by simp
  have p: "processed_rows st1 = processed_rows st @ [fst (process_row cfg env cols h i row)]"
    and q: "phone_lists st1 = phone_lists st @ [fst (snd (process_row cfg env cols h i row))]"
    unfolding st1_def by (rule phase1_row_rows)+
  have "[i ..< i + length (row # rows)] = i # [i + 1 ..< i + 1 + length rows]"
    by (simp add: upt_conv_Cons del: upt_Suc)
  then have z: "zip [i ..< i + length (row # rows)] (row # rows)
      = (i, row) # zip [i + 1 ..< i + 1 + length rows] rows"
    by simp
  show ?case unfolding step z using Cons [of "i + 1" st1] p q by simp
qed

lemma enrich_row_env:
  "enrich_row cfg (env\<lparr>checkpoint_ok := c, snapshot_io := s\<rparr>) cols i a p row
     = enrich_row cfg env cols i a p row"
  by (simp add: enrich_row_def)

lemma process_row_env:
  "process_row cfg (env\<lparr>checkpoint_ok := c, snapshot_io := s\<rparr>) cols h i row
     = process_row cfg env cols h i row"
  unfolding process_row_def enrich_row_env ..

lemma phase1_finish_output:
  "map_sum id output_csv (phase1_finish env dialect h st) =
     (case fill_all (zip (processed_rows st) (phone_lists st))
             (ensure_phone_cols h (max_len (phone_lists st))) [] of
        Inl e \<Rightarrow> Inl e
      | Inr (rows1, header1) \<Rightarrow>
          map_sum id id (write_file (output_io env)
             (write_rows dialect header1
                (rows1 @ drop (length (phone_lists st)) (processed_rows st)))))"
  by (auto simp: phase1_finish_def Let_def split: sum.splits prod.splits)

lemma phase1_main_best_effort:
  "map_sum id output_csv
      (phase1_main cfg (env\<lparr>checkpoint_ok := c, snapshot_io := s\<rparr>) dialect hh rows fs0)
   = map_sum id output_csv (phase1_main cfg env dialect hh rows fs0)"
proof (cases rows)
  case Nil
  then show ?thesis by (simp add: phase1_main_def)
next
  case (Cons header data_rows)
  let ?env' = "env\<lparr>checkpoint_ok := c, snapshot_io := s\<rparr>"
  define cols where "cols = fst (phase1_header header)"
  define h where "h = snd (phase1_header header)"
  define init where "init = \<lparr>processed_rows = [], phone_lists = [], files_of = fs0\<rparr>"
  define st where "st = phase1_loop cfg env dialect cols h 1 data_rows init"
  define st' where "st' = phase1_loop cfg ?env' dialect cols h 1 data_rows init"
  have m: "phase1_main cfg env dialect hh rows fs0
      = (if \<not> hh then Inl ValueError else phase1_finish env dialect h st)"
    and m': "phase1_main cfg ?env' dialect hh rows fs0
      = (if \<not> hh then Inl ValueError else phase1_finish ?env' dialect h st')"
    unfolding phase1_main_def Cons st_def st'_def cols_def h_def init_def
    by (simp_all add: case_prod_unfold Let_def)
  have r: "processed_rows st' = processed_rows st" "phone_lists st' = phone_lists st"
    unfolding st_def st'_def using phase1_loop_closed [of cfg env dialect cols h 1 data_rows init]
      phase1_loop_closed [of cfg ?env' dialect cols h 1 data_rows init]
    by (simp_all add: process_row_env)
  have o: "output_io ?env' = output_io env" by simp
  have "map_sum id output_csv (phase1_finish ?env' dialect h st')
      = map_sum id output_csv (phase1_finish env dialect h st)"
    unfolding phase1_finish_output r o ..
  then show ?thesis unfolding m m' by (cases hh) simp_all
qed

end
